theory Spec2Isabelle
  imports Main "HOL-Library.AList"
begin

section \<open>JavaScript values\<close>

text \<open>
  The values that reach \<^verbatim>\<open>lib/HuePlatform.js\<close>: the parsed \<^verbatim>\<open>config.json\<close> entry, the
  reply of the meethue portal, error objects. Numbers are the integers (seconds, status
  codes, lengths); an object is an association list read with \<open>map_of\<close>.
\<close>

datatype jsval =
    JUndefined
  | JNull
  | JBool bool
  | JNum int
  | JStr string
  | JArr "jsval list"
  | JObj "(string \<times> jsval) list"

datatype error = TypeError

text \<open>ToBoolean, as used by \<^verbatim>\<open>if (v)\<close> and \<^verbatim>\<open>v || d\<close>.\<close>

fun truthy :: "jsval \<Rightarrow> bool" where
  "truthy JUndefined = False"
| "truthy JNull = False"
| "truthy (JBool b) = b"
| "truthy (JNum n) = (n \<noteq> 0)"
| "truthy (JStr s) = (s \<noteq> [])"
| "truthy (JArr xs) = True"
| "truthy (JObj kvs) = True"

definition js_or :: "jsval \<Rightarrow> jsval \<Rightarrow> jsval" where
  "js_or a b = (if truthy a then a else b)"

text \<open>
  Reading a property \<^verbatim>\<open>v.k\<close> of a value that is neither \<^verbatim>\<open>undefined\<close> nor \<^verbatim>\<open>null\<close>, for
  the property names this program reads (\<^verbatim>\<open>length\<close> of a string counts its characters;
  the program only compares it with 0).
\<close>

fun field :: "jsval \<Rightarrow> string \<Rightarrow> jsval" where
  "field (JObj kvs) k = (case map_of kvs k of Some v \<Rightarrow> v | None \<Rightarrow> JUndefined)"
| "field (JArr xs) k = (if k = ''length'' then JNum (int (length xs)) else JUndefined)"
| "field (JStr s) k = (if k = ''length'' then JNum (int (length s)) else JUndefined)"
| "field v k = JUndefined"

text \<open>Reading a property of \<^verbatim>\<open>undefined\<close> or \<^verbatim>\<open>null\<close> throws a TypeError.\<close>

definition get_prop :: "jsval \<Rightarrow> string \<Rightarrow> error + jsval" where
  "get_prop v k = (if v = JUndefined \<or> v = JNull then Inl TypeError else Inr (field v k))"

text \<open>The assignment \<^verbatim>\<open>o.k = v\<close> on an object.\<close>

fun set_prop :: "jsval \<Rightarrow> string \<Rightarrow> jsval \<Rightarrow> jsval" where
  "set_prop (JObj kvs) k v = JObj (AList.update k v kvs)"
| "set_prop o' k v = o'"

text \<open>
  Converting a value to a primitive calls its \<^verbatim>\<open>toString\<close>. An object with an own
  property \<^verbatim>\<open>toString\<close> (which, in a parsed configuration, is never a function) cannot
  be converted: the conversion throws a TypeError. An array is converted by joining its
  elements, so it can be converted when its elements can.
\<close>

fun coercible :: "jsval \<Rightarrow> bool" where
  "coercible (JObj kvs) = (map_of kvs ''toString'' = None)"
| "coercible (JArr xs) = list_all coercible xs"
| "coercible v = True"

text \<open>
  The decimal digits of a number, as \<^verbatim>\<open>String(n)\<close> writes an integer (one below
  \<open>10\<^sup>2\<^sup>1\<close> in magnitude; the integers of a configuration are far smaller).
\<close>

definition digit_char :: "nat \<Rightarrow> char" where
  "digit_char d = ''0123456789'' ! d"

function decimal :: "nat \<Rightarrow> string" where
  "decimal n = (if n < 10 then [digit_char n] else decimal (n div 10) @ [digit_char (n mod 10)])"
  by pat_completeness auto
termination
  by (relation "measure (\<lambda>n. n)") auto

fun join :: "string list \<Rightarrow> string" where
  "join [] = []"
| "join [s] = s"
| "join (s # t # ss) = s @ '','' @ join (t # ss)"

text \<open>
  ToString, for a value that can be converted. In an array, \<^verbatim>\<open>undefined\<close> and \<^verbatim>\<open>null\<close>
  elements are written as the empty string.
\<close>

fun ToString :: "jsval \<Rightarrow> string" where
  "ToString JUndefined = ''undefined''"
| "ToString JNull = ''null''"
| "ToString (JBool b) = (if b then ''true'' else ''false'')"
| "ToString (JNum n) = (if n < 0 then CHR ''-'' # decimal (nat (- n)) else decimal (nat n))"
| "ToString (JStr s) = s"
| "ToString (JArr xs) =
     join (map (\<lambda>x. if x = JUndefined \<or> x = JNull then [] else ToString x) xs)"
| "ToString (JObj kvs) = ''[object Object]''"

declare decimal.simps [simp del]

text \<open>
  Reading a number from a string. White space around it is dropped; the empty string is
  0; an optionally signed run of at most twelve decimal digits is that integer (so that
  it and its thousandfold are exact). Every other string is left unread as \<open>NumOf s\<close>:
  the runtime reads a fraction, an exponent or radix form, an infinity or \<^verbatim>\<open>NaN\<close> from it,
  and nothing is said here about which.
\<close>

datatype jsnumber = Num int | NaN | NumOf string

definition is_space :: "char \<Rightarrow> bool" where
  "is_space c = (c \<in> set [CHR 0x09, CHR 0x0A, CHR 0x0B, CHR 0x0C, CHR 0x0D, CHR 0x20])"

definition trim :: "string \<Rightarrow> string" where
  "trim s = rev (dropWhile is_space (rev (dropWhile is_space s)))"

definition digit :: "char \<Rightarrow> int option" where
  "digit c =
     map_of [(CHR ''0'', 0), (CHR ''1'', 1), (CHR ''2'', 2), (CHR ''3'', 3), (CHR ''4'', 4),
             (CHR ''5'', 5), (CHR ''6'', 6), (CHR ''7'', 7), (CHR ''8'', 8), (CHR ''9'', 9)] c"

fun digits_value :: "string \<Rightarrow> int \<Rightarrow> int option" where
  "digits_value [] acc = Some acc"
| "digits_value (c # cs) acc =
     (case digit c of None \<Rightarrow> None | Some d \<Rightarrow> digits_value cs (10 * acc + d))"

definition integer_literal :: "string \<Rightarrow> int option" where
  "integer_literal ds = (if ds \<noteq> [] \<and> length ds \<le> 12 then digits_value ds 0 else None)"

definition StringToNumber :: "string \<Rightarrow> jsnumber" where
  "StringToNumber s =
     (case trim s of
        [] \<Rightarrow> Num 0
      | c # cs \<Rightarrow>
          (case (if c = CHR ''+'' then integer_literal cs
                 else if c = CHR ''-'' then map_option uminus (integer_literal cs)
                 else integer_literal (c # cs)) of
             Some n \<Rightarrow> Num n
           | None \<Rightarrow> NumOf s))"

text \<open>
  ToNumber, for a value that can be converted: an array or object is converted to a
  string first.
\<close>

fun ToNumber :: "jsval \<Rightarrow> jsnumber" where
  "ToNumber JUndefined = NaN"
| "ToNumber JNull = Num 0"
| "ToNumber (JBool b) = Num (if b then 1 else 0)"
| "ToNumber (JNum n) = Num n"
| "ToNumber (JStr s) = StringToNumber s"
| "ToNumber v = StringToNumber (ToString v)"

text \<open>
  The product \<^verbatim>\<open>1000 * v\<close>: a number of milliseconds, \<^verbatim>\<open>NaN\<close>, or a thousand times the
  number of an unread string; a TypeError when \<open>v\<close> cannot be converted.
\<close>

datatype timeout_ms = Ms int | MsNaN | MsOf string

definition times_1000 :: "jsval \<Rightarrow> error + timeout_ms" where
  "times_1000 v =
     (if coercible v
      then Inr (case ToNumber v of Num n \<Rightarrow> Ms (1000 * n) | NaN \<Rightarrow> MsNaN | NumOf s \<Rightarrow> MsOf s)
      else Inl TypeError)"

text \<open>
  JavaScript's \<^verbatim>\<open>a % b\<close> on integers, \<open>b \<noteq> 0\<close>: the remainder takes the sign of the
  dividend.
\<close>

definition js_rem :: "int \<Rightarrow> int \<Rightarrow> int" where
  "js_rem a b = sgn a * (\<bar>a\<bar> mod \<bar>b\<bar>)"

section \<open>The log\<close>

text \<open>
  Each call of \<^verbatim>\<open>this.log.error\<close>, \<^verbatim>\<open>this.log.info\<close>, \<^verbatim>\<open>this.log.debug\<close> appends one
  entry: the format argument and the remaining arguments.
\<close>

datatype log_entry =
    LogError jsval "jsval list"
  | LogInfo jsval "jsval list"
  | LogDebug jsval "jsval list"

fun is_error :: "log_entry \<Rightarrow> bool" where
  "is_error (LogError f as) = True"
| "is_error e = False"

section \<open>HuePlatform: the constructor\<close>

record hue_config =
  heartrate :: jsval
  timeout :: timeout_ms
  users :: jsval
  lights :: jsval
  philipslights :: jsval
  ct :: jsval
  fakecolor :: jsval
  groups :: jsval
  group0 :: bool
  rooms :: bool
  sensors :: jsval
  excludeSensorTypes :: "string \<rightharpoonup> bool"
  schedules :: jsval
  rules :: jsval
  hosts :: "jsval list option"

text \<open>
  A bridge handle, \<^verbatim>\<open>new HueBridge(this, address)\<close>. The class itself lives in
  \<^verbatim>\<open>lib/HueBridge.js\<close>; the platform only keeps the handle, asks it for its accessories
  and sends it heartbeats.
\<close>

datatype HueBridge = HueBridge (host: jsval)

record platform =
  platform_name :: jsval
  config :: hue_config
  bridges :: "HueBridge list"
  logged :: "log_entry list"

definition warn_alllights :: jsval where
  \<open>warn_alllights = JStr ''config.json: warning: "alllights" has been deprecated''\<close>

definition warn_clipsensors :: jsval where
  \<open>warn_clipsensors = JStr ''config.json: warning: "clipsensors" has been deprecated''\<close>

text \<open>Lines 103 to 106: the shim for \<^verbatim>\<open>alllights\<close>, which writes into the caller's object.\<close>

definition alllights_shim :: "jsval \<Rightarrow> jsval \<times> log_entry list" where
  "alllights_shim cfg =
     (if field cfg ''alllights'' \<noteq> JUndefined
      then (set_prop cfg ''philipslights'' (field cfg ''alllights''),
            [LogError warn_alllights []])
      else (cfg, []))"

text \<open>
  Lines 107 to 122: the object literal, \<open>ms\<close> being the product of line 109.
\<close>

definition defaults :: "jsval \<Rightarrow> timeout_ms \<Rightarrow> hue_config" where
  "defaults cfg ms =
     \<lparr> heartrate = js_or (field cfg ''heartrate'') (JNum 5),
       timeout = ms,
       users = js_or (field cfg ''users'') (JObj []),
       lights = js_or (field cfg ''lights'') (JBool False),
       philipslights = js_or (field cfg ''philipslights'') (JBool False),
       ct = js_or (field cfg ''ct'') (JBool False),
       fakecolor = js_or (field cfg ''fakecolor'') (JBool False),
       groups = js_or (field cfg ''groups'') (JBool False),
       group0 = (if field cfg ''group0'' = JBool False then False else True),
       rooms = (if field cfg ''rooms'' = JBool False then False else True),
       sensors = js_or (field cfg ''sensors'') (JBool False),
       excludeSensorTypes = Map.empty,
       schedules = js_or (field cfg ''schedules'') (JBool False),
       rules = js_or (field cfg ''rules'') (JBool False),
       hosts = None \<rparr>"

text \<open>
  Lines 123 to 127: \<^verbatim>\<open>this.config.excludeSensorTypes[type] = true\<close> for each element. The
  element is converted to a property key, its string, which throws when it cannot be
  converted. Assigning to the key \<^verbatim>\<open>__proto__\<close> calls the inherited setter, which ignores
  \<^verbatim>\<open>true\<close>: no property is created.
\<close>

fun exclude_each :: "jsval list \<Rightarrow> (string \<rightharpoonup> bool) \<Rightarrow> error + (string \<rightharpoonup> bool)" where
  "exclude_each [] m = Inr m"
| "exclude_each (type # types) m =
     (if coercible type
      then exclude_each types
             (if ToString type = ''__proto__'' then m else m(ToString type \<mapsto> True))
      else Inl TypeError)"

definition exclude_listed :: "jsval \<Rightarrow> hue_config \<Rightarrow> error + hue_config" where
  "exclude_listed cfg c =
     (case field cfg ''excludeSensorTypes'' of
        JArr types \<Rightarrow>
          (case exclude_each types (excludeSensorTypes c) of
             Inl e \<Rightarrow> Inl e
           | Inr m \<Rightarrow> Inr (c\<lparr>excludeSensorTypes := m\<rparr>))
      | _ \<Rightarrow> Inr c)"

text \<open>Lines 128 to 132: the shim for \<^verbatim>\<open>clipsensors\<close>.\<close>

definition clipsensors_shim :: "jsval \<Rightarrow> hue_config \<Rightarrow> hue_config \<times> log_entry list" where
  "clipsensors_shim cfg c =
     (if field cfg ''clipsensors'' = JBool False
      then (c\<lparr>excludeSensorTypes :=
                (excludeSensorTypes c)(''CLIP'' \<mapsto> True, ''Geofence'' \<mapsto> True)\<rparr>,
            [LogError warn_clipsensors []])
      else (c, []))"

text \<open>Lines 133 to 139.\<close>

definition set_hosts :: "jsval \<Rightarrow> hue_config \<Rightarrow> hue_config" where
  "set_hosts cfg c =
     (if truthy (field cfg ''host'')
      then (case field cfg ''host'' of
              JArr hs \<Rightarrow> c\<lparr>hosts := Some hs\<rparr>
            | h \<Rightarrow> c\<lparr>hosts := Some [h]\<rparr>)
      else c)"

text \<open>
  The constructor. \<open>versions\<close> are the four values of the start-up line (package name and
  version, node version, homebridge version). Reading \<^verbatim>\<open>config.name\<close> throws when
  \<^verbatim>\<open>config\<close> is \<^verbatim>\<open>undefined\<close> or \<^verbatim>\<open>null\<close>; the product of line 109 and the keys of line 125
  throw when a value cannot be converted. The result is the platform and the caller's
  \<^verbatim>\<open>config\<close> object as the constructor leaves it.
\<close>

definition HuePlatform :: "jsval list \<Rightarrow> jsval \<Rightarrow> error + (platform \<times> jsval)" where
  "HuePlatform versions config0 =
     (case get_prop config0 ''name'' of
        Inl e \<Rightarrow> Inl e
      | Inr nm \<Rightarrow>
          (let (cfg, log1) = alllights_shim config0
           in case times_1000 (js_or (field cfg ''timeout'') (JNum 5)) of
                Inl e \<Rightarrow> Inl e
              | Inr ms \<Rightarrow>
                  (case exclude_listed cfg (defaults cfg ms) of
                     Inl e \<Rightarrow> Inl e
                   | Inr c1 \<Rightarrow>
                       (let (c, log2) = clipsensors_shim cfg c1
                        in Inr (\<lparr> platform_name = nm,
                                  config = set_hosts cfg c,
                                  bridges = [],
                                  logged = log1 @ log2 @
                                    [LogInfo (JStr ''%s v%s, node %s, homebridge v%s'')
                                       versions] \<rparr>,
                                cfg)))))"

section \<open>findBridges\<close>

text \<open>
  What \<^verbatim>\<open>request\<close> hands to its callback: \<^verbatim>\<open>err\<close>, the status code of \<^verbatim>\<open>response\<close> (a
  number) and \<^verbatim>\<open>responseBody\<close> (with \<^verbatim>\<open>json: true\<close>, the parsed body).
\<close>

record http_reply =
  err :: jsval
  statusCode :: int
  responseBody :: jsval

record request_obj =
  http_method :: string
  url :: string
  request_timeout :: timeout_ms
  json :: bool

text \<open>
  The outcome of \<^verbatim>\<open>findBridges(callback)\<close>: the argument the callback was called with
  (\<open>None\<close> when an exception came first), the log entries written, the requests sent,
  and whether the callback ran before \<^verbatim>\<open>findBridges\<close> returned.
\<close>

record discovery =
  callback_arg :: "jsval option"
  dlog :: "log_entry list"
  requests :: "request_obj list"
  synchronous :: bool
  thrown :: "error option"

definition descriptor :: "jsval \<Rightarrow> jsval" where
  "descriptor h = JObj [(''internalipaddress'', h)]"

text \<open>Lines 160 to 174: the callback of \<^verbatim>\<open>request\<close>.\<close>

definition on_reply :: "http_reply \<Rightarrow> jsval option \<times> log_entry list \<times> error option" where
  "on_reply r =
     (if truthy (err r)
      then (Some JNull,
            [LogError (JStr ''meethue portal: communication error %s'') [err r]], None)
      else if statusCode r \<noteq> 200
      then (Some JNull,
            [LogError (JStr ''meethue portal: status %s'') [JNum (statusCode r)]], None)
      else (case get_prop (responseBody r) ''length'' of
              Inl e \<Rightarrow> (None, [], Some e)
            | Inr n \<Rightarrow>
                if n = JNum 0
                then (Some JNull,
                      [LogError (JStr ''meethue portal: no bridges registered'') []], None)
                else (Some (responseBody r), [], None)))"

definition findBridges :: "http_reply \<Rightarrow> platform \<Rightarrow> discovery" where
  "findBridges reply p =
     (case hosts (config p) of
        Some hs \<Rightarrow>
          \<lparr> callback_arg = Some (JArr (map descriptor hs)), dlog = [], requests = [],
            synchronous = True, thrown = None \<rparr>
      | None \<Rightarrow>
          (let requestObj = \<lparr> http_method = ''GET'', url = ''https://www.meethue.com/api/nupnp'',
                              request_timeout = timeout (config p), json = True \<rparr>;
               (a, lg, e) = on_reply reply
           in \<lparr> callback_arg = a,
                dlog = LogDebug (JStr ''contacting meethue portal'') [] # lg,
                requests = [requestObj], synchronous = False, thrown = e \<rparr>))"

section \<open>accessories\<close>

text \<open>
  An accessory, as \<^verbatim>\<open>bridge.accessories()\<close> resolves them: the platform reads its
  \<^verbatim>\<open>name\<close> and nothing else.
\<close>

datatype accessory = Accessory (name: jsval) (serial: nat)

text \<open>
  A promise as the platform sees it once everything has settled. A rejection carries the
  instant at which it happened: \<^verbatim>\<open>Promise.all\<close> rejects with the earliest one.
\<close>

datatype 'a promise = Fulfilled 'a | Rejected nat jsval | Pending

fun first_rejection :: "'a promise list \<Rightarrow> (nat \<times> jsval) option" where
  "first_rejection [] = None"
| "first_rejection (Rejected t e # ps) =
     (case first_rejection ps of
        Some (t', e') \<Rightarrow> if t' < t then Some (t', e') else Some (t, e)
      | None \<Rightarrow> Some (t, e))"
| "first_rejection (q # ps) = first_rejection ps"

fun values_of :: "'a promise list \<Rightarrow> 'a list option" where
  "values_of [] = Some []"
| "values_of (Fulfilled v # ps) = map_option ((#) v) (values_of ps)"
| "values_of (q # ps) = None"

definition Promise_all :: "'a promise list \<Rightarrow> 'a list promise" where
  "Promise_all ps =
     (case first_rejection ps of
        Some (t, e) \<Rightarrow> Rejected t e
      | None \<Rightarrow> (case values_of ps of Some vs \<Rightarrow> Fulfilled vs | None \<Rightarrow> Pending))"

text \<open>
  The outcome of \<^verbatim>\<open>accessories(callback)\<close>: the platform afterwards, the requests sent,
  the list the callback was called with (\<open>None\<close>: it never was), the value \<^verbatim>\<open>beat\<close> was
  initialised with when \<^verbatim>\<open>setInterval\<close> was called (\<open>None\<close>: it never was), and the
  exception that ended the run, if any.
\<close>

record run =
  final :: platform
  sent :: "request_obj list"
  returned :: "accessory list option"
  beat0 :: "int option"
  raised :: "error option"

text \<open>
  \<^verbatim>\<open>for (const obj of json)\<close>: an array gives its elements, a string its characters;
  nothing else that is truthy here is iterable.
\<close>

fun iterate :: "jsval \<Rightarrow> error + jsval list" where
  "iterate (JArr xs) = Inr xs"
| "iterate (JStr s) = Inr (map (\<lambda>c. JStr [c]) s)"
| "iterate v = Inl TypeError"

definition probing :: "jsval \<Rightarrow> log_entry" where
  "probing a = LogDebug (JStr ''probing bridge at %s'') [a]"

definition too_many :: "accessory \<Rightarrow> log_entry" where
  "too_many a = LogError (JStr ''too many accessories, ignoring %s'') [name a]"

text \<open>
  Lines 182 to 187: one handle and one probe per entry. \<open>probe\<close> is
  \<^verbatim>\<open>HueBridge.prototype.accessories\<close> of \<^verbatim>\<open>lib/HueBridge.js\<close>, which returns a promise
  for the bridge's list of accessories.
\<close>

fun probe_each :: "(HueBridge \<Rightarrow> accessory list promise) \<Rightarrow> jsval list \<Rightarrow> platform \<Rightarrow>
    accessory list promise list \<Rightarrow> platform \<times> accessory list promise list \<times> error option" where
  "probe_each probe [] p promises = (p, promises, None)"
| "probe_each probe (obj # objs) p promises =
     (case get_prop obj ''internalipaddress'' of
        Inl e \<Rightarrow> (p, promises, Some e)
      | Inr a \<Rightarrow>
          probe_each probe objs
            (p\<lparr>logged := logged p @ [probing a],
               bridges := bridges p @ [HueBridge a]\<rparr>)
            (promises @ [probe (HueBridge a)]))"

text \<open>Lines 206 to 209: the loop that drops accessories from the tail.\<close>

function drop_excess :: "accessory list \<Rightarrow> log_entry list \<Rightarrow> accessory list \<times> log_entry list" where
  "drop_excess accessoryList lg =
     (if length accessoryList > 99
      then drop_excess (butlast accessoryList)
             (lg @ [too_many (last accessoryList)])
      else (accessoryList, lg))"
  by pat_completeness auto
termination
  by (relation "measure (\<lambda>(accessoryList, lg). length accessoryList)") auto

text \<open>
  Lines 189 to 211: the handler of \<^verbatim>\<open>then\<close>. The caller's \<^verbatim>\<open>callback\<close> is taken to
  return.
\<close>

definition on_fulfilled :: "platform \<Rightarrow> request_obj list \<Rightarrow> accessory list list \<Rightarrow> run" where
  "on_fulfilled p rs lsts =
     (let accessoryList = concat lsts;
          b = (if length accessoryList > 0 then Some (- 1) else None);
          (kept, lg) = drop_excess accessoryList (logged p)
      in \<lparr> final = p\<lparr>logged := lg\<rparr>, sent = rs, returned = Some kept, beat0 = b,
           raised = None \<rparr>)"

text \<open>Lines 212 to 216: the handler of \<^verbatim>\<open>catch\<close>.\<close>

definition on_rejected :: "platform \<Rightarrow> request_obj list \<Rightarrow> jsval \<Rightarrow> run" where
  "on_rejected p rs e =
     (case get_prop e ''message'' of
        Inl x \<Rightarrow> \<lparr> final = p, sent = rs, returned = None, beat0 = None, raised = Some x \<rparr>
      | Inr m \<Rightarrow>
          \<lparr> final = (if truthy m then p\<lparr>logged := logged p @ [LogError m []]\<rparr> else p),
            sent = rs, returned = None, beat0 = None, raised = None \<rparr>)"

definition stopped :: "platform \<Rightarrow> request_obj list \<Rightarrow> error option \<Rightarrow> run" where
  "stopped p rs x = \<lparr> final = p, sent = rs, returned = None, beat0 = None, raised = x \<rparr>"

text \<open>Lines 180 to 218: the callback given to \<^verbatim>\<open>findBridges\<close>.\<close>

definition on_bridges ::
    "(HueBridge \<Rightarrow> accessory list promise) \<Rightarrow> platform \<Rightarrow> request_obj list \<Rightarrow> jsval \<Rightarrow> run" where
  "on_bridges probe p rs js =
     (if truthy js
      then (case iterate js of
              Inl x \<Rightarrow> stopped p rs (Some x)
            | Inr objs \<Rightarrow>
                (case probe_each probe objs p [] of
                   (p', promises, Some x) \<Rightarrow> stopped p' rs (Some x)
                 | (p', promises, None) \<Rightarrow>
                     (case Promise_all promises of
                        Fulfilled lsts \<Rightarrow> on_fulfilled p' rs lsts
                      | Rejected t e \<Rightarrow> on_rejected p' rs e
                      | Pending \<Rightarrow> stopped p' rs None)))
      else stopped p rs None)"

definition accessories ::
    "(HueBridge \<Rightarrow> accessory list promise) \<Rightarrow> http_reply \<Rightarrow> platform \<Rightarrow> run" where
  "accessories probe reply p =
     (let d = findBridges reply p;
          p1 = p\<lparr>logged := logged p @ dlog d\<rparr>
      in case callback_arg d of
           None \<Rightarrow> stopped p1 (requests d) (thrown d)
         | Some js \<Rightarrow> on_bridges probe p1 (requests d) js)"

section \<open>The heartbeat\<close>

text \<open>Lines 199 and 200: \<^verbatim>\<open>beat += 1; beat %= 7 * 24 * 3600\<close>.\<close>

definition next_beat :: "int \<Rightarrow> int" where
  "next_beat beat = js_rem (beat + 1) (7 * 24 * 3600)"

text \<open>
  One run of the function given to \<^verbatim>\<open>setInterval\<close>: the new \<^verbatim>\<open>beat\<close> and the calls
  \<^verbatim>\<open>bridge.heartbeat(beat)\<close> it makes, in order. \<^verbatim>\<open>heartbeat\<close> belongs to
  \<^verbatim>\<open>lib/HueBridge.js\<close>; each call is taken to return.
\<close>

definition interval_fire :: "platform \<Rightarrow> int \<Rightarrow> int \<times> (HueBridge \<times> int) list" where
  "interval_fire p beat =
     (let beat' = next_beat beat in (beat', map (\<lambda>bridge. (bridge, beat')) (bridges p)))"

text \<open>\<open>n\<close> consecutive runs: the value of \<^verbatim>\<open>beat\<close> afterwards and the calls of each run.\<close>

fun fires :: "platform \<Rightarrow> nat \<Rightarrow> int \<Rightarrow> int \<times> (HueBridge \<times> int) list list" where
  "fires p 0 beat = (beat, [])"
| "fires p (Suc n) beat =
     (let (b1, calls) = interval_fire p beat;
          (b2, rest) = fires p n b1
      in (b2, calls # rest))"

section \<open>Example inputs\<close>

text \<open>
  Concrete configurations, platforms, portal replies and bridges, on which the properties
  below are evaluated. \<open>portal_platform\<close> is the platform the constructor builds from
  the empty configuration, \<open>static_platform\<close> the one it builds from \<open>static_config\<close>.
\<close>

definition example_versions :: "jsval list" where
  "example_versions = [JStr ''homebridge-hue'', JStr ''0.3.2'', JStr ''v6.10.0'', JStr ''0.4.16'']"

definition static_config :: jsval where
  "static_config = JObj [(''host'', JArr [JStr ''10.0.0.5'', JStr ''10.0.0.6''])]"

definition portal_platform :: platform where
  "portal_platform =
     \<lparr> platform_name = JUndefined, config = defaults (JObj []) (Ms 5000),
       bridges = [],
       logged = [LogInfo (JStr ''%s v%s, node %s, homebridge v%s'') example_versions] \<rparr>"

definition static_platform :: platform where
  "static_platform =
     \<lparr> platform_name = JUndefined,
       config = (defaults static_config (Ms 5000))\<lparr>hosts := Some [JStr ''10.0.0.5'', JStr ''10.0.0.6'']\<rparr>,
       bridges = [],
       logged = [LogInfo (JStr ''%s v%s, node %s, homebridge v%s'') example_versions] \<rparr>"

definition portal_down :: http_reply where
  "portal_down =
     \<lparr> err = JObj [(''code'', JStr ''ETIMEDOUT'')], statusCode = 0, responseBody = JUndefined \<rparr>"


definition one_lamp :: "HueBridge \<Rightarrow> accessory list promise" where
  "one_lamp bridge = Fulfilled [Accessory (JStr ''lamp'') 0]"

definition fifty_lamps :: "HueBridge \<Rightarrow> accessory list promise" where
  "fifty_lamps bridge = Fulfilled (map (Accessory (host bridge)) [0..<50])"

definition second_fails :: "HueBridge \<Rightarrow> accessory list promise" where
  "second_fails bridge =
     (if host bridge = JStr ''10.0.0.6''
      then Rejected 7 (JObj [(''message'', JStr ''no response'')])
      else Fulfilled [Accessory (JStr ''lamp'') 0])"


definition zero_config :: jsval where
  "zero_config =
     JObj [(''heartrate'', JNum 0), (''timeout'', JNum 0),
           (''excludeSensorTypes'', JArr [JStr ''Daylight''])]"

definition string_zero_config :: jsval where
  "string_zero_config = JObj [(''heartrate'', JNum 0), (''timeout'', JStr ''0'')]"

definition string_zero_platform :: platform where
  "string_zero_platform =
     \<lparr> platform_name = JUndefined, config = defaults string_zero_config (Ms 0),
       bridges = [],
       logged = [LogInfo (JStr ''%s v%s, node %s, homebridge v%s'') example_versions] \<rparr>"

definition unconvertible_config :: jsval where
  "unconvertible_config =
     JObj [(''heartrate'', JNum 0), (''timeout'', JObj [(''toString'', JNum 1)])]"

definition rejects_without_reason :: "HueBridge \<Rightarrow> accessory list promise" where
  "rejects_without_reason bridge = Rejected 7 JUndefined"

definition no_bridges_registered :: http_reply where
  "no_bridges_registered = \<lparr> err = JNull, statusCode = 200, responseBody = JArr [] \<rparr>"

section \<open>Auxiliary facts\<close>

declare drop_excess.simps [simp del]

lemma drop_excess_eq:
  "drop_excess xs lg = (take 99 xs, lg @ map too_many (rev (drop 99 xs)))"
proof (induction xs lg rule: drop_excess.induct)
  case (1 xs lg)
  show ?case
  proof (cases "length xs > 99")
    case True
    then have ne: "xs \<noteq> []" by auto
    have "min 99 (length xs - 1) = 99" using True by simp
    then have t: "take 99 (butlast xs) = take 99 xs"
      by (simp add: butlast_conv_take)
    have "drop 99 (butlast xs @ [last xs]) = drop 99 (butlast xs) @ [last xs]"
      using True by simp
    then have d: "drop 99 xs = drop 99 (butlast xs) @ [last xs]"
      using ne by simp
    show ?thesis
      using True 1 [OF True] by (subst drop_excess.simps) (simp add: t d)
  next
    case False
    then show ?thesis by (subst drop_excess.simps) simp
  qed
qed

lemma probe_each_ok:
  "map (\<lambda>obj. get_prop obj ''internalipaddress'') objs = map Inr addrs \<Longrightarrow>
   probe_each probe objs p promises =
     (p\<lparr>logged := logged p @ map probing addrs,
        bridges := bridges p @ map HueBridge addrs\<rparr>,
      promises @ map (\<lambda>a. probe (HueBridge a)) addrs, None)"
proof (induction objs arbitrary: p promises addrs)
  case Nil
  then show ?case by simp
next
  case (Cons obj objs)
  then obtain a as where addrs: "addrs = a # as" by (cases addrs) auto
  with Cons.prems have h: "get_prop obj ''internalipaddress'' = Inr a"
    and t: "map (\<lambda>obj. get_prop obj ''internalipaddress'') objs = map Inr as"
    by simp_all
  show ?case
    by (simp add: h addrs Cons.IH [OF t])
qed

lemma first_rejection_Fulfilled [simp]: "first_rejection (map Fulfilled ls) = None"
  by (induction ls) simp_all

lemma values_of_Fulfilled [simp]: "values_of (map Fulfilled ls) = Some ls"
  by (induction ls) simp_all

lemma Promise_all_Fulfilled: "Promise_all (map Fulfilled ls) = Fulfilled ls"
  by (simp add: Promise_all_def)

lemma first_rejection_exists:
  "Rejected t e \<in> set ps \<Longrightarrow> \<exists>t' e'. first_rejection ps = Some (t', e')"
  by (induction ps rule: first_rejection.induct) (auto split: option.splits)

lemma first_rejection_earliest:
  "first_rejection ps = Some (t, e) \<Longrightarrow>
     Rejected t e \<in> set ps \<and> (\<forall>t' e'. Rejected t' e' \<in> set ps \<longrightarrow> t \<le> t')"
proof (induction ps arbitrary: t e)
  case Nil
  then show ?case by simp
next
  case (Cons q ps)
  show ?case
  proof (cases q)
    case (Fulfilled v)
    with Cons show ?thesis by auto
  next
    case Pending
    with Cons show ?thesis by auto
  next
    case (Rejected t0 e0)
    show ?thesis
    proof (cases "first_rejection ps")
      case None
      then have "\<And>t' e'. Rejected t' e' \<notin> set ps"
        using first_rejection_exists by fastforce
      with None Rejected Cons.prems show ?thesis by auto
    next
      case (Some a)
      obtain t1 e1 where a: "a = (t1, e1)" by (cases a)
      from Cons.IH [of t1 e1] Some a
      have ih: "Rejected t1 e1 \<in> set ps" "\<forall>t' e'. Rejected t' e' \<in> set ps \<longrightarrow> t1 \<le> t'"
        by auto
      show ?thesis
        using Cons.prems Rejected Some a ih by (auto split: if_splits)
    qed
  qed
qed

lemma Promise_all_Rejected:
  assumes "Rejected t e \<in> set ps"
  shows "\<exists>t' e'. Promise_all ps = Rejected t' e' \<and> Rejected t' e' \<in> set ps \<and>
           (\<forall>t'' e''. Rejected t'' e'' \<in> set ps \<longrightarrow> t' \<le> t'')"
proof -
  obtain t' e' where f: "first_rejection ps = Some (t', e')"
    using first_rejection_exists [OF assms] by blast
  then have "Promise_all ps = Rejected t' e'" by (simp add: Promise_all_def)
  with first_rejection_earliest [OF f] show ?thesis by blast
qed

lemma field_alllights_shim:
  "field (fst (alllights_shim cfg)) k =
     (if field cfg ''alllights'' \<noteq> JUndefined \<and> k = ''philipslights''
      then field cfg ''alllights'' else field cfg k)"
proof (cases cfg)
  case (JObj kvs)
  then show ?thesis by (simp add: alllights_shim_def update_conv')
qed (simp_all add: alllights_shim_def)

lemma set_hosts_fields [simp]:
  "philipslights (set_hosts cfg c) = philipslights c"
  "heartrate (set_hosts cfg c) = heartrate c"
  "timeout (set_hosts cfg c) = timeout c"
  "excludeSensorTypes (set_hosts cfg c) = excludeSensorTypes c"
  by (simp_all add: set_hosts_def split: jsval.splits)

lemma clipsensors_shim_fields [simp]:
  "philipslights (fst (clipsensors_shim cfg c)) = philipslights c"
  "heartrate (fst (clipsensors_shim cfg c)) = heartrate c"
  "timeout (fst (clipsensors_shim cfg c)) = timeout c"
  by (simp_all add: clipsensors_shim_def)

lemma exclude_listed_fields:
  assumes "exclude_listed cfg c = Inr c1"
  shows "philipslights c1 = philipslights c"
    and "heartrate c1 = heartrate c"
    and "timeout c1 = timeout c"
  using assms
  by (auto simp: exclude_listed_def split: jsval.splits sum.splits)

lemma defaults_fields:
  "philipslights (defaults cfg ms) = js_or (field cfg ''philipslights'') (JBool False)"
  "heartrate (defaults cfg ms) = js_or (field cfg ''heartrate'') (JNum 5)"
  "timeout (defaults cfg ms) = ms"
  by (simp_all add: defaults_def)


lemma HuePlatform_Inr:
  assumes "HuePlatform versions cfg = Inr (p, cfg')"
  obtains ms c1 where "cfg' = fst (alllights_shim cfg)"
    and "times_1000 (js_or (field cfg' ''timeout'') (JNum 5)) = Inr ms"
    and "exclude_listed cfg' (defaults cfg' ms) = Inr c1"
    and "config p = set_hosts cfg' (fst (clipsensors_shim cfg' c1))"
    and "logged p = snd (alllights_shim cfg) @ snd (clipsensors_shim cfg' c1)
           @ [LogInfo (JStr ''%s v%s, node %s, homebridge v%s'') versions]"
    and "bridges p = []"
  using assms
  by (auto simp: HuePlatform_def split: sum.splits prod.splits)

lemma exclude_each_ok:
  "list_all coercible types \<Longrightarrow> \<exists>m'. exclude_each types m = Inr m'"
  by (induction types arbitrary: m) simp_all

lemma exclude_listed_ok:
  assumes "\<forall>types. field cfg ''excludeSensorTypes'' = JArr types \<longrightarrow> list_all coercible types"
  shows "\<exists>c1. exclude_listed cfg c = Inr c1"
proof (cases "field cfg ''excludeSensorTypes''")
  case (JArr types)
  with assms have "list_all coercible types" by simp
  then obtain m' where "exclude_each types (excludeSensorTypes c) = Inr m'"
    using exclude_each_ok by blast
  with JArr show ?thesis by (simp add: exclude_listed_def)
qed (simp_all add: exclude_listed_def)

lemma HuePlatform_succeeds:
  assumes "cfg \<noteq> JUndefined" and "cfg \<noteq> JNull"
    and "coercible (field cfg ''timeout'')"
    and "\<forall>types. field cfg ''excludeSensorTypes'' = JArr types \<longrightarrow> list_all coercible types"
  shows "\<exists>p cfg'. HuePlatform versions cfg = Inr (p, cfg')"
proof -
  let ?cfg' = "fst (alllights_shim cfg)"
  have t: "field ?cfg' ''timeout'' = field cfg ''timeout''"
    and x: "field ?cfg' ''excludeSensorTypes'' = field cfg ''excludeSensorTypes''"
    by (simp_all add: field_alllights_shim)
  have "coercible (js_or (field ?cfg' ''timeout'') (JNum 5))"
    using assms(3) by (simp add: t js_or_def)
  then obtain ms where ms: "times_1000 (js_or (field ?cfg' ''timeout'') (JNum 5)) = Inr ms"
    by (simp add: times_1000_def)
  obtain c1 where c1: "exclude_listed ?cfg' (defaults ?cfg' ms) = Inr c1"
    using exclude_listed_ok [of ?cfg'] assms(4) by (auto simp: x)
  show ?thesis
    using assms(1,2) ms c1
    by (cases "alllights_shim cfg") (auto simp: HuePlatform_def get_prop_def split: prod.splits)
qed

lemma on_fulfilled_simps:
  "returned (on_fulfilled p rs lsts) = Some (take 99 (concat lsts))"
  "beat0 (on_fulfilled p rs lsts) = (if concat lsts = [] then None else Some (- 1))"
  "final (on_fulfilled p rs lsts) =
     p\<lparr>logged := logged p @ map too_many (rev (drop 99 (concat lsts)))\<rparr>"
  "raised (on_fulfilled p rs lsts) = None"
  by (simp_all add: on_fulfilled_def drop_excess_eq Let_def)

lemma on_rejected_simps:
  "returned (on_rejected p rs e) = None"
  "beat0 (on_rejected p rs e) = None"
  "final (on_rejected p rs e) =
     p\<lparr>logged := logged p @
        (case get_prop e ''message'' of
           Inr m \<Rightarrow> if truthy m then [LogError m []] else []
         | Inl x \<Rightarrow> [])\<rparr>"
  "raised (on_rejected p rs e) = (case get_prop e ''message'' of Inl x \<Rightarrow> Some x | Inr m \<Rightarrow> None)"
  by (simp_all add: on_rejected_def split: sum.splits)

lemma stopped_simps:
  "returned (stopped p rs x) = None"
  "beat0 (stopped p rs x) = None"
  "final (stopped p rs x) = p"
  "raised (stopped p rs x) = x"
  by (simp_all add: stopped_def)

lemma on_bridges_returned:
  assumes "returned (on_bridges probe p rs js) = Some xs"
  shows "\<exists>lsts. xs = take 99 (concat lsts) \<and>
           beat0 (on_bridges probe p rs js) = (if concat lsts = [] then None else Some (- 1))"
  using assms
  by (auto simp: on_bridges_def on_fulfilled_simps on_rejected_simps stopped_simps
      split: if_splits sum.splits prod.splits option.splits promise.splits)

lemma accessories_returned:
  assumes "returned (accessories probe reply p) = Some xs"
  shows "\<exists>lsts. xs = take 99 (concat lsts) \<and>
           beat0 (accessories probe reply p) = (if concat lsts = [] then None else Some (- 1))"
proof (cases "callback_arg (findBridges reply p)")
  case None
  with assms show ?thesis by (simp add: accessories_def Let_def stopped_simps)
next
  case (Some js)
  then have "accessories probe reply p =
      on_bridges probe (p\<lparr>logged := logged p @ dlog (findBridges reply p)\<rparr>)
        (requests (findBridges reply p)) js"
    by (simp add: accessories_def Let_def)
  with assms on_bridges_returned show ?thesis by metis
qed

lemma accessories_probing:
  assumes "callback_arg (findBridges reply p) = Some js"
    and "truthy js"
    and "iterate js = Inr objs"
    and "map (\<lambda>obj. get_prop obj ''internalipaddress'') objs = map Inr addrs"
  shows "accessories probe reply p =
     (case Promise_all (map (\<lambda>a. probe (HueBridge a)) addrs) of
        Fulfilled lsts \<Rightarrow>
          on_fulfilled
            (p\<lparr>logged := logged p @ dlog (findBridges reply p) @ map probing addrs,
               bridges := bridges p @ map HueBridge addrs\<rparr>)
            (requests (findBridges reply p)) lsts
      | Rejected t e \<Rightarrow>
          on_rejected
            (p\<lparr>logged := logged p @ dlog (findBridges reply p) @ map probing addrs,
               bridges := bridges p @ map HueBridge addrs\<rparr>)
            (requests (findBridges reply p)) e
      | Pending \<Rightarrow>
          stopped
            (p\<lparr>logged := logged p @ dlog (findBridges reply p) @ map probing addrs,
               bridges := bridges p @ map HueBridge addrs\<rparr>)
            (requests (findBridges reply p)) None)"
proof -
  let ?p1 = "p\<lparr>logged := logged p @ dlog (findBridges reply p)\<rparr>"
  have a: "accessories probe reply p = on_bridges probe ?p1 (requests (findBridges reply p)) js"
    using assms(1) by (simp add: accessories_def Let_def)
  have pe: "probe_each probe objs ?p1 [] =
      (?p1\<lparr>logged := logged ?p1 @ map probing addrs,
           bridges := bridges ?p1 @ map HueBridge addrs\<rparr>,
       [] @ map (\<lambda>a. probe (HueBridge a)) addrs, None)"
    by (rule probe_each_ok [OF assms(4)])
  show ?thesis
    unfolding a on_bridges_def using assms(2,3) by (simp add: pe)
qed

lemma returned_at_most_99:
  "returned (accessories probe reply p) = Some xs \<Longrightarrow> length xs \<le> 99"
  using accessories_returned [of probe reply p xs] by auto

lemma findBridges_truthy_no_error:
  assumes "callback_arg (findBridges reply p) = Some js" and "truthy js"
  shows "filter is_error (dlog (findBridges reply p)) = []"
  using assms
  by (auto simp: findBridges_def on_reply_def Let_def
      split: option.splits if_splits sum.splits prod.splits)

lemma probing_no_error [simp]: "filter is_error (map probing addrs) = []"
  by (induction addrs) (simp_all add: probing_def)

lemma portal_platform_constructed:
  "HuePlatform example_versions (JObj []) = Inr (portal_platform, JObj [])"
  by (simp add: HuePlatform_def get_prop_def alllights_shim_def clipsensors_shim_def
      exclude_listed_def set_hosts_def portal_platform_def times_1000_def js_or_def)

lemma static_platform_constructed:
  "HuePlatform example_versions static_config = Inr (static_platform, static_config)"
  by (simp add: HuePlatform_def get_prop_def alllights_shim_def clipsensors_shim_def
      exclude_listed_def set_hosts_def static_platform_def static_config_def times_1000_def
      js_or_def)

lemma next_beat_mod: "- 1 \<le> b \<Longrightarrow> next_beat b = (b + 1) mod 604800"
  by (simp add: next_beat_def js_rem_def sgn_if)

lemma fires_from:
  "- 1 \<le> b \<Longrightarrow>
   fires q n b =
     (if n = 0 then b else (b + int n) mod 604800,
      map (\<lambda>k. map (\<lambda>bridge. (bridge, (b + 1 + int k) mod 604800)) (bridges q)) [0..<n])"
proof (induction n arbitrary: b)
  case 0
  then show ?case by simp
next
  case (Suc n)
  let ?b1 = "(b + 1) mod 604800"
  have b1: "- 1 \<le> ?b1" by (smt (verit) pos_mod_sign)
  have nb: "next_beat b = ?b1" using Suc.prems by (rule next_beat_mod)
  have "(?b1 + int n) mod 604800 = (b + 1 + int n) mod 604800"
    by (rule mod_add_left_eq)
  then have e1: "(?b1 + int n) mod 604800 = (b + int (Suc n)) mod 604800"
    by (simp add: add.assoc)
  have e2: "\<And>k. (?b1 + 1 + int k) mod 604800 = (b + 1 + int (Suc k)) mod 604800"
  proof -
    fix k
    have "(?b1 + (1 + int k)) mod 604800 = (b + 1 + (1 + int k)) mod 604800"
      by (rule mod_add_left_eq)
    then show "(?b1 + 1 + int k) mod 604800 = (b + 1 + int (Suc k)) mod 604800"
      by (simp add: add.assoc)
  qed
  have u: "[0..<Suc n] = 0 # map Suc [0..<n]"
    by (simp add: upt_conv_Cons map_Suc_upt del: upt_Suc)
  show ?case
    unfolding fires.simps interval_fire_def Let_def nb prod.case Suc.IH [OF b1] u
    by (simp add: e1 e2 del: upt_Suc)
qed

lemma wrap_step:
  "0 \<le> (x::int) \<Longrightarrow>
   (x + 1) mod 604800 = (if x mod 604800 = 604799 then 0 else x mod 604800 + 1)"
proof -
  let ?r = "x mod 604800"
  have r: "0 \<le> ?r" "?r < 604800" by simp_all
  have e: "(x + 1) mod 604800 = (?r + 1) mod 604800"
    by (simp add: mod_add_left_eq)
  show ?thesis
  proof (cases "?r = 604799")
    case True
    then show ?thesis by (simp add: e)
  next
    case False
    with r have "0 \<le> ?r + 1" "?r + 1 < 604800" by linarith+
    then have "(?r + 1) mod 604800 = ?r + 1" by (rule mod_pos_pos_trivial)
    with False show ?thesis by (simp add: e)
  qed
qed

lemma on_bridges_beat0:
  "beat0 (on_bridges probe p rs js) = Some b \<Longrightarrow> b = - 1"
  by (auto simp: on_bridges_def on_fulfilled_simps on_rejected_simps stopped_simps
      split: if_splits sum.splits prod.splits option.splits promise.splits)

lemma accessories_beat0:
  assumes "beat0 (accessories probe reply p) = Some b"
  shows "b = - 1"
proof (cases "callback_arg (findBridges reply p)")
  case None
  with assms show ?thesis by (simp add: accessories_def Let_def stopped_simps)
next
  case (Some js)
  then have "accessories probe reply p =
      on_bridges probe (p\<lparr>logged := logged p @ dlog (findBridges reply p)\<rparr>)
        (requests (findBridges reply p)) js"
    by (simp add: accessories_def Let_def)
  with assms on_bridges_beat0 show ?thesis by metis
qed

lemma set_hosts_hosts:
  "hosts (set_hosts cfg c) =
     (if truthy (field cfg ''host'')
      then Some (case field cfg ''host'' of JArr hs \<Rightarrow> hs | h \<Rightarrow> [h])
      else hosts c)"
  by (simp add: set_hosts_def split: jsval.splits)

lemma field_descriptor [simp]: "field (descriptor h) ''internalipaddress'' = h"
  by (simp add: descriptor_def)

lemma static_found:
  "callback_arg (findBridges reply static_platform) =
     Some (JArr [descriptor (JStr ''10.0.0.5''), descriptor (JStr ''10.0.0.6'')])"
  by (simp add: findBridges_def static_platform_def)

lemma static_truthy:
  "truthy (JArr [descriptor (JStr ''10.0.0.5''), descriptor (JStr ''10.0.0.6'')])"
  by simp

lemma static_iterate:
  "iterate (JArr [descriptor (JStr ''10.0.0.5''), descriptor (JStr ''10.0.0.6'')]) =
     Inr [descriptor (JStr ''10.0.0.5''), descriptor (JStr ''10.0.0.6'')]"
  by simp

lemma static_addresses:
  "map (\<lambda>obj. get_prop obj ''internalipaddress'')
     [descriptor (JStr ''10.0.0.5''), descriptor (JStr ''10.0.0.6'')] =
   map Inr [JStr ''10.0.0.5'', JStr ''10.0.0.6'']"
  by (simp add: get_prop_def descriptor_def)

lemma static_platform_fields:
  "bridges static_platform = []"
  "dlog (findBridges reply static_platform) = []"
  by (simp_all add: static_platform_def findBridges_def)

lemma one_lamp_probes:
  "map (\<lambda>a. one_lamp (HueBridge a)) [JStr ''10.0.0.5'', JStr ''10.0.0.6''] =
     map Fulfilled [[Accessory (JStr ''lamp'') 0], [Accessory (JStr ''lamp'') 0]]"
  by (simp add: one_lamp_def)

lemma one_lamp_returned:
  "returned (accessories one_lamp portal_down static_platform) =
     Some [Accessory (JStr ''lamp'') 0, Accessory (JStr ''lamp'') 0]"
  by (simp add: accessories_probing [OF static_found static_truthy static_iterate static_addresses]
      one_lamp_probes [simplified] Promise_all_def on_fulfilled_simps)

lemma one_lamp_bridges:
  "bridges (final (accessories one_lamp portal_down static_platform)) =
     [HueBridge (JStr ''10.0.0.5''), HueBridge (JStr ''10.0.0.6'')]"
  by (simp add: accessories_probing [OF static_found static_truthy static_iterate static_addresses]
      one_lamp_probes [simplified] Promise_all_def on_fulfilled_simps static_platform_fields)

lemma one_lamp_beat0:
  "beat0 (accessories one_lamp portal_down static_platform) = Some (- 1)"
  by (simp add: accessories_probing [OF static_found static_truthy static_iterate static_addresses]
      one_lamp_probes [simplified] Promise_all_def on_fulfilled_simps)

lemma fifty_lamps_probes:
  "map (\<lambda>a. fifty_lamps (HueBridge a)) [JStr ''10.0.0.5'', JStr ''10.0.0.6''] =
     map Fulfilled [map (Accessory (JStr ''10.0.0.5'')) [0..<50],
                    map (Accessory (JStr ''10.0.0.6'')) [0..<50]]"
  by (simp add: fifty_lamps_def del: upt_rec_numeral)

lemma fifty_lamps_total:
  "sum_list (map length [map (Accessory (JStr ''10.0.0.5'')) [0..<50],
                         map (Accessory (JStr ''10.0.0.6'')) [0..<50]]) > 99"
  by (simp del: upt_rec_numeral)

lemma fifty_lamps_kept:
  "take 99 (concat [map (Accessory (JStr ''10.0.0.5'')) [0..<50],
                    map (Accessory (JStr ''10.0.0.6'')) [0..<50]]) =
   map (Accessory (JStr ''10.0.0.5'')) [0..<50] @ map (Accessory (JStr ''10.0.0.6'')) [0..<49]"
  by (simp add: take_map del: upt_rec_numeral)

lemma fifty_lamps_dropped:
  "map (\<lambda>a. LogError (JStr ''too many accessories, ignoring %s'') [name a])
     (rev (drop 99 (concat [map (Accessory (JStr ''10.0.0.5'')) [0..<50],
                    map (Accessory (JStr ''10.0.0.6'')) [0..<50]]))) =
   [LogError (JStr ''too many accessories, ignoring %s'') [JStr ''10.0.0.6'']]"
proof -
  have "[49..<50] = [49::nat]" by simp
  then show ?thesis
    by (simp add: drop_map del: upt_rec_numeral)
qed

lemma second_fails_probes:
  "map (\<lambda>a. second_fails (HueBridge a)) [JStr ''10.0.0.5'', JStr ''10.0.0.6''] =
     [Fulfilled [Accessory (JStr ''lamp'') 0],
      Rejected 7 (JObj [(''message'', JStr ''no response'')])]"
  by (simp add: second_fails_def)

lemma on_reply_failure:
  assumes "truthy (err reply) \<or> statusCode reply \<noteq> 200
      \<or> get_prop (responseBody reply) ''length'' = Inr (JNum 0)"
  shows "\<exists>e. on_reply reply = (Some JNull, [e], None) \<and> is_error e"
  using assms by (auto simp: on_reply_def)


section \<open>The properties\<close>



text \<open>
  C10, as the code has it. For every configuration object (anything but \<^verbatim>\<open>undefined\<close>
  and \<^verbatim>\<open>null\<close>) whose \<^verbatim>\<open>timeout\<close> and listed sensor types can be converted to primitives
  the constructor returns. A falsy \<^verbatim>\<open>heartrate\<close> (absent, 0, \<^verbatim>\<open>null\<close>, \<^verbatim>\<open>false\<close>, the empty
  string) resolves to 5 and a falsy \<^verbatim>\<open>timeout\<close> to 5000 milliseconds; the resolved
  heartrate is never 0, and the resolved timeout is not 0 when \<^verbatim>\<open>timeout\<close> is falsy or a
  number.
\<close>

theorem falsy_heartrate_timeout_default:
  assumes "cfg \<noteq> JUndefined" and "cfg \<noteq> JNull"
    and "coercible (field cfg ''timeout'')"
    and "\<forall>types. field cfg ''excludeSensorTypes'' = JArr types \<longrightarrow> list_all coercible types"
  shows "\<exists>p cfg'. HuePlatform versions cfg = Inr (p, cfg') \<and>
           (\<not> truthy (field cfg ''heartrate'') \<longrightarrow> heartrate (config p) = JNum 5) \<and>
           (\<not> truthy (field cfg ''timeout'') \<longrightarrow> timeout (config p) = Ms 5000) \<and>
           heartrate (config p) \<noteq> JNum 0 \<and>
           ((\<not> truthy (field cfg ''timeout'') \<or> (\<exists>n. field cfg ''timeout'' = JNum n))
              \<longrightarrow> timeout (config p) \<noteq> Ms 0)"
proof -
  obtain p cfg' where r: "HuePlatform versions cfg = Inr (p, cfg')"
    using HuePlatform_succeeds [OF assms] by blast
  from r obtain ms c1 where H1: "cfg' = fst (alllights_shim cfg)"
    and H2: "times_1000 (js_or (field cfg' ''timeout'') (JNum 5)) = Inr ms"
    and H3: "exclude_listed cfg' (defaults cfg' ms) = Inr c1"
    and H4: "config p = set_hosts cfg' (fst (clipsensors_shim cfg' c1))"
    by (rule HuePlatform_Inr)
  have hr: "heartrate (config p) = js_or (field cfg ''heartrate'') (JNum 5)"
    by (simp add: H4 exclude_listed_fields(2) [OF H3] defaults_fields H1 field_alllights_shim)
  have "timeout (config p) = ms"
    by (simp add: H4 exclude_listed_fields(3) [OF H3] defaults_fields)
  then have tm: "times_1000 (js_or (field cfg ''timeout'') (JNum 5)) = Inr (timeout (config p))"
    using H2 by (simp add: H1 field_alllights_shim)
  have a: "heartrate (config p) \<noteq> JNum 0"
    unfolding hr js_or_def by (cases "field cfg ''heartrate''") auto
  have b: "\<not> truthy (field cfg ''timeout'') \<longrightarrow> timeout (config p) = Ms 5000"
    using tm by (auto simp: js_or_def times_1000_def)
  have c: "(\<exists>n. field cfg ''timeout'' = JNum n) \<longrightarrow> timeout (config p) \<noteq> Ms 0"
    using tm by (auto simp: js_or_def times_1000_def split: if_splits)
  from a b c show ?thesis
    using r hr by (auto simp: js_or_def)
qed

theorem falsy_heartrate_timeout_default_witness:
  "zero_config \<noteq> JUndefined \<and> zero_config \<noteq> JNull \<and>
   coercible (field zero_config ''timeout'') \<and>
   field zero_config ''excludeSensorTypes'' = JArr [JStr ''Daylight''] \<and>
   list_all coercible [JStr ''Daylight''] \<and>
   \<not> truthy (field zero_config ''heartrate'') \<and>
   \<not> truthy (field zero_config ''timeout'') \<and>
   (\<exists>p cfg'. HuePlatform [] zero_config = Inr (p, cfg') \<and>
      heartrate (config p) = JNum 5 \<and> timeout (config p) = Ms 5000)"
proof -
  have a: "zero_config \<noteq> JUndefined" "zero_config \<noteq> JNull"
    and b: "\<not> truthy (field zero_config ''heartrate'')" "\<not> truthy (field zero_config ''timeout'')"
    and c: "coercible (field zero_config ''timeout'')"
    and d: "field zero_config ''excludeSensorTypes'' = JArr [JStr ''Daylight'']"
    by (simp_all add: zero_config_def)
  have l: "list_all coercible [JStr ''Daylight'']"
    by simp
  from d l have e: "\<forall>types. field zero_config ''excludeSensorTypes'' = JArr types
      \<longrightarrow> list_all coercible types"
    by simp
  from falsy_heartrate_timeout_default [OF a c e, of "[]"] a b c d l show ?thesis
    by auto
qed

text \<open>
  C10, as stated, at \<^verbatim>\<open>{heartrate: 0, timeout: "0"}\<close> and at
  \<^verbatim>\<open>{heartrate: 0, timeout: {toString: 1}}\<close>. In the first the string \<^verbatim>\<open>"0"\<close> is truthy,
  so that no default is substituted and the product \<^verbatim>\<open>1000 * "0"\<close> is 0: the resolved
  timeout is 0 milliseconds. In the second the product throws a TypeError: resolution
  does not succeed.
\<close>

theorem string_timeout_resolves_to_zero:
  "\<not> truthy (field string_zero_config ''heartrate'') \<and>
   HuePlatform example_versions string_zero_config =
     Inr (string_zero_platform, string_zero_config) \<and>
   timeout (config string_zero_platform) = Ms 0 \<and>
   \<not> truthy (field unconvertible_config ''heartrate'') \<and>
   HuePlatform example_versions unconvertible_config = Inl TypeError"
proof -
  have t: "times_1000 (JStr ''0'') = Inr (Ms 0)"
    by (simp add: times_1000_def StringToNumber_def trim_def is_space_def integer_literal_def
        digit_def)
  have "HuePlatform example_versions string_zero_config =
     Inr (string_zero_platform, string_zero_config)"
    by (simp add: HuePlatform_def get_prop_def alllights_shim_def clipsensors_shim_def
        exclude_listed_def set_hosts_def string_zero_platform_def string_zero_config_def
        js_or_def t)
  moreover have "HuePlatform example_versions unconvertible_config = Inl TypeError"
    by (simp add: HuePlatform_def get_prop_def alllights_shim_def unconvertible_config_def
        js_or_def times_1000_def)
  moreover have "timeout (config string_zero_platform) = Ms 0"
    by (simp add: string_zero_platform_def defaults_def)
  ultimately show ?thesis
    by (simp add: string_zero_config_def unconvertible_config_def)
qed

text \<open>
  C7. When \<^verbatim>\<open>host\<close> is configured (a truthy value: one host or an array of hosts),
  \<^verbatim>\<open>findBridges\<close> on the constructed platform, in any later state, calls its callback
  before it returns with one descriptor per configured host, in the configured order,
  logs nothing and sends no request, whatever the portal would have replied.
\<close>

theorem static_hosts_discovery:
  assumes "HuePlatform versions cfg = Inr (p0, cfg')"
    and "truthy (field cfg ''host'')"
    and "config p = config p0"
  shows "findBridges reply p =
           \<lparr> callback_arg =
               Some (JArr (map descriptor (case field cfg ''host'' of JArr hs \<Rightarrow> hs | h \<Rightarrow> [h]))),
             dlog = [], requests = [], synchronous = True, thrown = None \<rparr> \<and>
         map (\<lambda>d. field d ''internalipaddress'')
           (map descriptor (case field cfg ''host'' of JArr hs \<Rightarrow> hs | h \<Rightarrow> [h])) =
           (case field cfg ''host'' of JArr hs \<Rightarrow> hs | h \<Rightarrow> [h])"
proof -
  from assms(1) obtain c1 where H1: "cfg' = fst (alllights_shim cfg)"
    and H4: "config p0 = set_hosts cfg' (fst (clipsensors_shim cfg' c1))"
    by (rule HuePlatform_Inr)
  have "field cfg' ''host'' = field cfg ''host''"
    by (simp add: H1 field_alllights_shim)
  then have "hosts (config p) = Some (case field cfg ''host'' of JArr hs \<Rightarrow> hs | h \<Rightarrow> [h])"
    using assms(2) by (simp add: assms(3) H4 set_hosts_hosts)
  then show ?thesis
    by (simp add: findBridges_def comp_def)
qed

theorem static_hosts_discovery_witness:
  "HuePlatform example_versions static_config = Inr (static_platform, static_config) \<and>
   truthy (field static_config ''host'') \<and>
   findBridges portal_down static_platform =
     \<lparr> callback_arg =
         Some (JArr [descriptor (JStr ''10.0.0.5''), descriptor (JStr ''10.0.0.6'')]),
       dlog = [], requests = [], synchronous = True, thrown = None \<rparr>"
proof -
  have t: "truthy (field static_config ''host'')"
    by (simp add: static_config_def)
  from static_hosts_discovery [OF static_platform_constructed t refl, of portal_down]
    static_platform_constructed t
  show ?thesis
    by (simp add: static_config_def)
qed

text \<open>
  C3, as the code has it. Without configured hosts, when the portal request ends in a
  transport error, a status other than 200 or a body whose \<^verbatim>\<open>length\<close> is 0,
  \<^verbatim>\<open>findBridges\<close> logs exactly one error and calls its callback with \<^verbatim>\<open>null\<close>. The run
  of \<^verbatim>\<open>accessories\<close> then only extends the log: no bridge handle is created, nothing is
  thrown, \<^verbatim>\<open>setInterval\<close> is never called, and the callback of \<^verbatim>\<open>accessories\<close> is never
  called, so that no accessory list, not even an empty one, is handed over.
\<close>

theorem discovery_failure_stops_run:
  assumes "hosts (config p) = None"
    and "truthy (err reply) \<or> statusCode reply \<noteq> 200
      \<or> get_prop (responseBody reply) ''length'' = Inr (JNum 0)"
  shows "callback_arg (findBridges reply p) = Some JNull \<and>
         length (filter is_error (dlog (findBridges reply p))) = 1 \<and>
         final (accessories probe reply p) = p\<lparr>logged := logged p @ dlog (findBridges reply p)\<rparr> \<and>
         bridges (final (accessories probe reply p)) = bridges p \<and>
         returned (accessories probe reply p) = None \<and>
         beat0 (accessories probe reply p) = None \<and>
         raised (accessories probe reply p) = None"
proof -
  obtain e where o: "on_reply reply = (Some JNull, [e], None)" and e: "is_error e"
    using on_reply_failure [OF assms(2)] by blast
  have c: "callback_arg (findBridges reply p) = Some JNull"
    and d: "dlog (findBridges reply p) = [LogDebug (JStr ''contacting meethue portal'') [], e]"
    by (simp_all add: findBridges_def assms(1) o)
  have r: "accessories probe reply p =
      stopped (p\<lparr>logged := logged p @ dlog (findBridges reply p)\<rparr>)
        (requests (findBridges reply p)) None"
    by (simp add: accessories_def Let_def c on_bridges_def)
  show ?thesis
    unfolding r stopped_simps using c e by (simp add: d)
qed

theorem discovery_failure_stops_run_witness:
  "hosts (config portal_platform) = None \<and>
   truthy (err portal_down) \<and>
   callback_arg (findBridges portal_down portal_platform) = Some JNull \<and>
   length (filter is_error (dlog (findBridges portal_down portal_platform))) = 1 \<and>
   bridges (final (accessories one_lamp portal_down portal_platform)) = [] \<and>
   returned (accessories one_lamp portal_down portal_platform) = None \<and>
   beat0 (accessories one_lamp portal_down portal_platform) = None"
proof -
  have h: "hosts (config portal_platform) = None"
    by (simp add: portal_platform_def defaults_def)
  have t: "truthy (err portal_down)"
    by (simp add: portal_down_def)
  then have t': "truthy (err portal_down) \<or> statusCode portal_down \<noteq> 200
      \<or> get_prop (responseBody portal_down) ''length'' = Inr (JNum 0)"
    by simp
  have b: "bridges portal_platform = []"
    by (simp add: portal_platform_def)
  from discovery_failure_stops_run [OF h t', of one_lamp] h t b show ?thesis
    by simp
qed

text \<open>
  C3, as stated, at the reply with status 200 and an empty array: \<^verbatim>\<open>findBridges\<close> hands
  over \<^verbatim>\<open>null\<close> rather than an empty sequence, and \<^verbatim>\<open>accessories\<close> hands over nothing
  rather than an empty list.
\<close>

theorem discovery_failure_no_callback:
  "callback_arg (findBridges no_bridges_registered portal_platform) = Some JNull \<and>
   callback_arg (findBridges no_bridges_registered portal_platform) \<noteq> Some (JArr []) \<and>
   returned (accessories one_lamp no_bridges_registered portal_platform) = None \<and>
   returned (accessories one_lamp no_bridges_registered portal_platform) \<noteq> Some []"
proof -
  have h: "hosts (config portal_platform) = None"
    by (simp add: portal_platform_def defaults_def)
  have o: "on_reply no_bridges_registered =
      (Some JNull, [LogError (JStr ''meethue portal: no bridges registered'') []], None)"
    by (simp add: on_reply_def no_bridges_registered_def get_prop_def)
  have c: "callback_arg (findBridges no_bridges_registered portal_platform) = Some JNull"
    by (simp add: findBridges_def h o)
  have "returned (accessories one_lamp no_bridges_registered portal_platform) = None"
    by (simp add: accessories_def Let_def c on_bridges_def stopped_simps)
  with c show ?thesis by simp
qed




text \<open>
  C6. When discovery hands over the entries \<open>objs\<close> with addresses \<open>addrs\<close> and every
  probe is fulfilled, the probe of the i-th address with the list \<open>ls ! i\<close>, and the
  lists hold at most 99 accessories together, then the callback of \<^verbatim>\<open>accessories\<close>
  receives \<open>concat ls\<close>: the lists one after the other in the order of the entries, each
  in its own order; its length is the sum of the lengths. The bridge list is extended
  by the handles in the same order.
\<close>

theorem flatten_in_bridge_order:
  assumes "callback_arg (findBridges reply p) = Some js"
    and "truthy js"
    and "iterate js = Inr objs"
    and "map (\<lambda>obj. get_prop obj ''internalipaddress'') objs = map Inr addrs"
    and "map (\<lambda>a. probe (HueBridge a)) addrs = map Fulfilled ls"
    and "sum_list (map length ls) \<le> 99"
  shows "returned (accessories probe reply p) = Some (concat ls) \<and>
         length (concat ls) = sum_list (map length ls) \<and>
         bridges (final (accessories probe reply p)) = bridges p @ map HueBridge addrs \<and>
         logged (final (accessories probe reply p)) =
           logged p @ dlog (findBridges reply p) @ map probing addrs"
proof -
  have r: "accessories probe reply p =
      on_fulfilled
        (p\<lparr>logged := logged p @ dlog (findBridges reply p) @ map probing addrs,
           bridges := bridges p @ map HueBridge addrs\<rparr>)
        (requests (findBridges reply p)) ls"
    by (simp add: accessories_probing [OF assms(1-4)] assms(5) Promise_all_Fulfilled)
  have len: "length (concat ls) = sum_list (map length ls)"
    by (simp add: length_concat)
  then show ?thesis
    using assms(6) by (simp add: r on_fulfilled_simps)
qed

theorem flatten_in_bridge_order_witness:
  "callback_arg (findBridges portal_down static_platform) =
     Some (JArr [descriptor (JStr ''10.0.0.5''), descriptor (JStr ''10.0.0.6'')]) \<and>
   truthy (JArr [descriptor (JStr ''10.0.0.5''), descriptor (JStr ''10.0.0.6'')]) \<and>
   iterate (JArr [descriptor (JStr ''10.0.0.5''), descriptor (JStr ''10.0.0.6'')]) =
     Inr [descriptor (JStr ''10.0.0.5''), descriptor (JStr ''10.0.0.6'')] \<and>
   map (\<lambda>obj. get_prop obj ''internalipaddress'')
     [descriptor (JStr ''10.0.0.5''), descriptor (JStr ''10.0.0.6'')] =
     map Inr [JStr ''10.0.0.5'', JStr ''10.0.0.6''] \<and>
   map (\<lambda>a. one_lamp (HueBridge a)) [JStr ''10.0.0.5'', JStr ''10.0.0.6''] =
     map Fulfilled [[Accessory (JStr ''lamp'') 0], [Accessory (JStr ''lamp'') 0]] \<and>
   sum_list (map length [[Accessory (JStr ''lamp'') 0], [Accessory (JStr ''lamp'') 0]]) \<le> 99 \<and>
   returned (accessories one_lamp portal_down static_platform) =
     Some [Accessory (JStr ''lamp'') 0, Accessory (JStr ''lamp'') 0] \<and>
   bridges (final (accessories one_lamp portal_down static_platform)) =
     [HueBridge (JStr ''10.0.0.5''), HueBridge (JStr ''10.0.0.6'')] \<and>
   logged (final (accessories one_lamp portal_down static_platform)) =
     logged static_platform @ [probing (JStr ''10.0.0.5''), probing (JStr ''10.0.0.6'')]"
proof -
  have h6: "sum_list (map length [[Accessory (JStr ''lamp'') 0], [Accessory (JStr ''lamp'') 0]])
      \<le> 99"
    by simp
  from flatten_in_bridge_order
    [OF static_found static_truthy static_iterate static_addresses one_lamp_probes h6]
    static_found [of portal_down] static_truthy static_iterate static_addresses one_lamp_probes h6
  show ?thesis
    by (simp add: static_platform_fields)
qed

text \<open>
  C1. When discovery hands over the entries \<open>objs\<close> with addresses \<open>addrs\<close>, every probe
  is fulfilled, the probe of the i-th address with the list \<open>ls ! i\<close>, and the lists hold
  more than 99 accessories together, then the callback of \<^verbatim>\<open>accessories\<close> receives exactly
  the first 99 accessories of \<open>concat ls\<close>. The log is extended, after the debug lines of
  discovery and of the probes, by one error \<^verbatim>\<open>too many accessories, ignoring %s\<close> per
  dropped accessory, with the name of that accessory as its argument, from the last
  accessory backwards: these are the only errors logged, and there are the sum minus 99
  of them. In every run whatsoever, a list handed to the callback has at most 99 entries.
\<close>

theorem cap_at_99:
  assumes "callback_arg (findBridges reply p) = Some js"
    and "truthy js"
    and "iterate js = Inr objs"
    and "map (\<lambda>obj. get_prop obj ''internalipaddress'') objs = map Inr addrs"
    and "map (\<lambda>a. probe (HueBridge a)) addrs = map Fulfilled ls"
    and "sum_list (map length ls) > 99"
  shows "returned (accessories probe reply p) = Some (take 99 (concat ls)) \<and>
         length (take 99 (concat ls)) = 99 \<and>
         logged (final (accessories probe reply p)) =
           logged p @ dlog (findBridges reply p) @ map probing addrs
             @ map (\<lambda>a. LogError (JStr ''too many accessories, ignoring %s'') [name a])
                 (rev (drop 99 (concat ls))) \<and>
         filter is_error (dlog (findBridges reply p) @ map probing addrs) = [] \<and>
         length (filter is_error
           (drop (length (logged p)) (logged (final (accessories probe reply p))))) =
           sum_list (map length ls) - 99 \<and>
         (\<forall>probe' reply' p' xs.
            returned (accessories probe' reply' p') = Some xs \<longrightarrow> length xs \<le> 99)"
proof -
  let ?removals = "map (\<lambda>a. LogError (JStr ''too many accessories, ignoring %s'') [name a])
                 (rev (drop 99 (concat ls)))"
  have r: "accessories probe reply p =
      on_fulfilled
        (p\<lparr>logged := logged p @ dlog (findBridges reply p) @ map probing addrs,
           bridges := bridges p @ map HueBridge addrs\<rparr>)
        (requests (findBridges reply p)) ls"
    by (simp add: accessories_probing [OF assms(1-4)] assms(5) Promise_all_Fulfilled)
  have tm: "map too_many (rev (drop 99 (concat ls))) = ?removals"
    by (simp add: too_many_def)
  have l: "logged (final (accessories probe reply p)) =
           logged p @ dlog (findBridges reply p) @ map probing addrs @ ?removals"
    by (simp add: r on_fulfilled_simps tm)
  have len: "length (concat ls) = sum_list (map length ls)"
    by (simp add: length_concat)
  have k: "length (take 99 (concat ls)) = 99"
    using assms(6) len by simp
  have ne: "filter is_error (dlog (findBridges reply p) @ map probing addrs) = []"
    using findBridges_truthy_no_error [OF assms(1,2)] by simp
  have "filter is_error ?removals = ?removals"
    by (induction "rev (drop 99 (concat ls))") simp_all
  then have "filter is_error
      (drop (length (logged p)) (logged (final (accessories probe reply p)))) = ?removals"
    using ne by (simp add: l)
  then have c: "length (filter is_error
      (drop (length (logged p)) (logged (final (accessories probe reply p))))) =
      sum_list (map length ls) - 99"
    using len by simp
  have "returned (accessories probe reply p) = Some (take 99 (concat ls))"
    by (simp add: r on_fulfilled_simps)
  with k l ne c returned_at_most_99 show ?thesis
    by blast
qed

theorem cap_at_99_witness:
  "callback_arg (findBridges portal_down static_platform) =
     Some (JArr [descriptor (JStr ''10.0.0.5''), descriptor (JStr ''10.0.0.6'')]) \<and>
   truthy (JArr [descriptor (JStr ''10.0.0.5''), descriptor (JStr ''10.0.0.6'')]) \<and>
   iterate (JArr [descriptor (JStr ''10.0.0.5''), descriptor (JStr ''10.0.0.6'')]) =
     Inr [descriptor (JStr ''10.0.0.5''), descriptor (JStr ''10.0.0.6'')] \<and>
   map (\<lambda>obj. get_prop obj ''internalipaddress'')
     [descriptor (JStr ''10.0.0.5''), descriptor (JStr ''10.0.0.6'')] =
     map Inr [JStr ''10.0.0.5'', JStr ''10.0.0.6''] \<and>
   map (\<lambda>a. fifty_lamps (HueBridge a)) [JStr ''10.0.0.5'', JStr ''10.0.0.6''] =
     map Fulfilled [map (Accessory (JStr ''10.0.0.5'')) [0..<50],
                    map (Accessory (JStr ''10.0.0.6'')) [0..<50]] \<and>
   sum_list (map length [map (Accessory (JStr ''10.0.0.5'')) [0..<50],
                         map (Accessory (JStr ''10.0.0.6'')) [0..<50]]) > 99 \<and>
   returned (accessories fifty_lamps portal_down static_platform) =
     Some (map (Accessory (JStr ''10.0.0.5'')) [0..<50] @
           map (Accessory (JStr ''10.0.0.6'')) [0..<49]) \<and>
   logged (final (accessories fifty_lamps portal_down static_platform)) =
     logged static_platform @
       [LogDebug (JStr ''probing bridge at %s'') [JStr ''10.0.0.5''],
        LogDebug (JStr ''probing bridge at %s'') [JStr ''10.0.0.6''],
        LogError (JStr ''too many accessories, ignoring %s'') [JStr ''10.0.0.6'']]"
proof -
  note t = cap_at_99
    [OF static_found static_truthy static_iterate static_addresses fifty_lamps_probes
        fifty_lamps_total]
  have r: "returned (accessories fifty_lamps portal_down static_platform) =
     Some (map (Accessory (JStr ''10.0.0.5'')) [0..<50] @
           map (Accessory (JStr ''10.0.0.6'')) [0..<49])"
    using t [of portal_down] unfolding fifty_lamps_kept by blast
  have l: "logged (final (accessories fifty_lamps portal_down static_platform)) =
     logged static_platform @
       [LogDebug (JStr ''probing bridge at %s'') [JStr ''10.0.0.5''],
        LogDebug (JStr ''probing bridge at %s'') [JStr ''10.0.0.6''],
        LogError (JStr ''too many accessories, ignoring %s'') [JStr ''10.0.0.6'']]"
    using t [of portal_down] unfolding fifty_lamps_dropped
    by (simp add: static_platform_fields probing_def)
  from r l static_found [of portal_down] static_truthy static_iterate static_addresses
    fifty_lamps_probes fifty_lamps_total
  show ?thesis by blast
qed

text \<open>
  C4. In every run in which the callback of \<^verbatim>\<open>accessories\<close> is called, \<^verbatim>\<open>setInterval\<close> was
  called if and only if the list handed to the callback is not empty.
\<close>

theorem heartbeat_iff_nonempty:
  assumes "returned (accessories probe reply p) = Some xs"
  shows "(beat0 (accessories probe reply p) \<noteq> None) = (xs \<noteq> [])"
proof -
  obtain lsts where "xs = take 99 (concat lsts)"
    and "beat0 (accessories probe reply p) = (if concat lsts = [] then None else Some (- 1))"
    using accessories_returned [OF assms] by blast
  then show ?thesis by simp
qed

theorem heartbeat_iff_nonempty_witness:
  "returned (accessories one_lamp portal_down static_platform) =
     Some [Accessory (JStr ''lamp'') 0, Accessory (JStr ''lamp'') 0] \<and>
   beat0 (accessories one_lamp portal_down static_platform) \<noteq> None"
  using heartbeat_iff_nonempty [OF one_lamp_returned] one_lamp_returned by simp

text \<open>
  C2, as the code has it. When discovery hands over entries with addresses \<open>addrs\<close> and
  at least one of the probes is rejected, whatever the others do, the callback of
  \<^verbatim>\<open>accessories\<close> is never called and \<^verbatim>\<open>setInterval\<close> is never called. The log is
  extended, after the debug lines of the probes, by one error, the \<^verbatim>\<open>message\<close> of the
  earliest rejection, if that is truthy, and by nothing otherwise. When the reason of
  that rejection is neither \<^verbatim>\<open>undefined\<close> nor \<^verbatim>\<open>null\<close>, the handler of \<^verbatim>\<open>catch\<close> throws
  nothing: a failure without a message is swallowed silently.
\<close>

theorem probe_failure_is_fatal:
  assumes "callback_arg (findBridges reply p) = Some js"
    and "truthy js"
    and "iterate js = Inr objs"
    and "map (\<lambda>obj. get_prop obj ''internalipaddress'') objs = map Inr addrs"
    and "Rejected t e \<in> set (map (\<lambda>a. probe (HueBridge a)) addrs)"
  shows "returned (accessories probe reply p) = None \<and>
         beat0 (accessories probe reply p) = None \<and>
         (\<exists>t' e'. Rejected t' e' \<in> set (map (\<lambda>a. probe (HueBridge a)) addrs) \<and>
            (\<forall>t'' e''. Rejected t'' e'' \<in> set (map (\<lambda>a. probe (HueBridge a)) addrs)
               \<longrightarrow> t' \<le> t'') \<and>
            logged (final (accessories probe reply p)) =
              logged p @ dlog (findBridges reply p) @ map probing addrs
                @ (case get_prop e' ''message'' of
                     Inr m \<Rightarrow> if truthy m then [LogError m []] else []
                   | Inl x \<Rightarrow> []) \<and>
            (e' \<noteq> JUndefined \<and> e' \<noteq> JNull \<longrightarrow>
               raised (accessories probe reply p) = None))"
proof -
  obtain t' e' where pa: "Promise_all (map (\<lambda>a. probe (HueBridge a)) addrs) = Rejected t' e'"
    and m: "Rejected t' e' \<in> set (map (\<lambda>a. probe (HueBridge a)) addrs)"
    and f: "\<forall>t'' e''. Rejected t'' e'' \<in> set (map (\<lambda>a. probe (HueBridge a)) addrs)
               \<longrightarrow> t' \<le> t''"
    using Promise_all_Rejected [OF assms(5)] by blast
  have r: "accessories probe reply p =
      on_rejected
        (p\<lparr>logged := logged p @ dlog (findBridges reply p) @ map probing addrs,
           bridges := bridges p @ map HueBridge addrs\<rparr>)
        (requests (findBridges reply p)) e'"
    by (simp add: accessories_probing [OF assms(1-4)] pa)
  have l: "logged (final (accessories probe reply p)) =
              logged p @ dlog (findBridges reply p) @ map probing addrs
                @ (case get_prop e' ''message'' of
                     Inr m \<Rightarrow> if truthy m then [LogError m []] else []
                   | Inl x \<Rightarrow> [])"
    by (simp add: r on_rejected_simps)
  have x: "e' \<noteq> JUndefined \<and> e' \<noteq> JNull \<longrightarrow> raised (accessories probe reply p) = None"
    by (simp add: r on_rejected_simps get_prop_def)
  have "returned (accessories probe reply p) = None"
    and "beat0 (accessories probe reply p) = None"
    by (simp_all add: r on_rejected_simps)
  with m f l x show ?thesis
    by blast
qed

theorem probe_failure_is_fatal_witness:
  "callback_arg (findBridges portal_down static_platform) =
     Some (JArr [descriptor (JStr ''10.0.0.5''), descriptor (JStr ''10.0.0.6'')]) \<and>
   truthy (JArr [descriptor (JStr ''10.0.0.5''), descriptor (JStr ''10.0.0.6'')]) \<and>
   iterate (JArr [descriptor (JStr ''10.0.0.5''), descriptor (JStr ''10.0.0.6'')]) =
     Inr [descriptor (JStr ''10.0.0.5''), descriptor (JStr ''10.0.0.6'')] \<and>
   map (\<lambda>obj. get_prop obj ''internalipaddress'')
     [descriptor (JStr ''10.0.0.5''), descriptor (JStr ''10.0.0.6'')] =
     map Inr [JStr ''10.0.0.5'', JStr ''10.0.0.6''] \<and>
   Rejected 7 (JObj [(''message'', JStr ''no response'')])
     \<in> set (map (\<lambda>a. second_fails (HueBridge a)) [JStr ''10.0.0.5'', JStr ''10.0.0.6'']) \<and>
   Fulfilled [Accessory (JStr ''lamp'') 0]
     \<in> set (map (\<lambda>a. second_fails (HueBridge a)) [JStr ''10.0.0.5'', JStr ''10.0.0.6'']) \<and>
   JObj [(''message'', JStr ''no response'')] \<noteq> JUndefined \<and>
   JObj [(''message'', JStr ''no response'')] \<noteq> JNull \<and>
   returned (accessories second_fails portal_down static_platform) = None \<and>
   beat0 (accessories second_fails portal_down static_platform) = None \<and>
   raised (accessories second_fails portal_down static_platform) = None \<and>
   logged (final (accessories second_fails portal_down static_platform)) =
     logged static_platform @
       [LogDebug (JStr ''probing bridge at %s'') [JStr ''10.0.0.5''],
        LogDebug (JStr ''probing bridge at %s'') [JStr ''10.0.0.6''],
        LogError (JStr ''no response'') []]"
proof -
  have h5: "Rejected 7 (JObj [(''message'', JStr ''no response'')])
     \<in> set (map (\<lambda>a. second_fails (HueBridge a)) [JStr ''10.0.0.5'', JStr ''10.0.0.6''])"
    unfolding second_fails_probes by simp
  have h6: "Fulfilled [Accessory (JStr ''lamp'') 0]
     \<in> set (map (\<lambda>a. second_fails (HueBridge a)) [JStr ''10.0.0.5'', JStr ''10.0.0.6''])"
    unfolding second_fails_probes by simp
  note t = probe_failure_is_fatal
    [OF static_found static_truthy static_iterate static_addresses h5, of portal_down]
  then obtain t' e' where
    m: "Rejected t' e'
      \<in> set (map (\<lambda>a. second_fails (HueBridge a)) [JStr ''10.0.0.5'', JStr ''10.0.0.6''])"
    and l: "logged (final (accessories second_fails portal_down static_platform)) =
        logged static_platform @ dlog (findBridges portal_down static_platform)
          @ map probing [JStr ''10.0.0.5'', JStr ''10.0.0.6'']
          @ (case get_prop e' ''message'' of
               Inr m \<Rightarrow> if truthy m then [LogError m []] else []
             | Inl x \<Rightarrow> [])"
    and x: "e' \<noteq> JUndefined \<and> e' \<noteq> JNull \<longrightarrow>
        raised (accessories second_fails portal_down static_platform) = None"
    by blast
  from m have e': "e' = JObj [(''message'', JStr ''no response'')]"
    unfolding second_fails_probes by simp
  have l': "logged (final (accessories second_fails portal_down static_platform)) =
     logged static_platform @
       [LogDebug (JStr ''probing bridge at %s'') [JStr ''10.0.0.5''],
        LogDebug (JStr ''probing bridge at %s'') [JStr ''10.0.0.6''],
        LogError (JStr ''no response'') []]"
    unfolding l e' by (simp add: static_platform_fields get_prop_def probing_def)
  have x': "raised (accessories second_fails portal_down static_platform) = None"
    using x unfolding e' by simp
  have n: "JObj [(''message'', JStr ''no response'')] \<noteq> JUndefined"
    "JObj [(''message'', JStr ''no response'')] \<noteq> JNull"
    by simp_all
  from t l' x' n h5 h6 static_found [of portal_down] static_truthy static_iterate
    static_addresses
  show ?thesis by blast
qed

text \<open>
  C2, as stated, at a probe that is rejected without a reason (\<^verbatim>\<open>reject()\<close>): the failure
  has no message, and it is not swallowed silently. Reading \<^verbatim>\<open>err.message\<close> in the
  handler of \<^verbatim>\<open>catch\<close> throws a TypeError, which nothing catches.
\<close>

theorem rejection_without_reason_throws:
  "rejects_without_reason (HueBridge (JStr ''10.0.0.5'')) = Rejected 7 JUndefined \<and>
   returned (accessories rejects_without_reason portal_down static_platform) = None \<and>
   raised (accessories rejects_without_reason portal_down static_platform) = Some TypeError \<and>
   raised (accessories rejects_without_reason portal_down static_platform) \<noteq> None"
proof -
  have pa: "Promise_all
      [rejects_without_reason (HueBridge (JStr ''10.0.0.5'')),
       rejects_without_reason (HueBridge (JStr ''10.0.0.6''))] =
      Rejected 7 JUndefined"
    by (simp add: rejects_without_reason_def Promise_all_def)
  have r: "accessories rejects_without_reason portal_down static_platform =
      on_rejected
        (static_platform\<lparr>logged := logged static_platform
             @ dlog (findBridges portal_down static_platform)
             @ map probing [JStr ''10.0.0.5'', JStr ''10.0.0.6''],
           bridges := bridges static_platform
             @ map HueBridge [JStr ''10.0.0.5'', JStr ''10.0.0.6'']\<rparr>)
        (requests (findBridges portal_down static_platform)) JUndefined"
    by (simp add: accessories_probing
        [OF static_found static_truthy static_iterate static_addresses] pa)
  show ?thesis
    unfolding r on_rejected_simps by (simp add: get_prop_def rejects_without_reason_def)
qed

text \<open>
  C5. \<^verbatim>\<open>beat\<close> starts at -1. After \<open>n\<close> runs of the interval function it is
  \<open>(n - 1) mod 604800\<close>: within \<open>[0, 604800)\<close> from the first run on, each value one more
  than the one before, except that 604799 is followed by 0. The k-th run (counted from 0)
  calls \<^verbatim>\<open>heartbeat\<close> on every bridge of the platform's list, in order, with the value
  \<open>k mod 604800\<close> that \<^verbatim>\<open>beat\<close> has then.
\<close>

theorem heartbeat_sequence:
  "(beat0 (accessories probe reply p) = Some b \<longrightarrow> b = - 1) \<and>
   fst (fires q n (- 1)) = (if n = 0 then - 1 else (int n - 1) mod 604800) \<and>
   snd (fires q n (- 1)) =
     map (\<lambda>k. map (\<lambda>bridge. (bridge, int k mod 604800)) (bridges q)) [0..<n] \<and>
   (0 < n \<longrightarrow>
      0 \<le> fst (fires q n (- 1)) \<and> fst (fires q n (- 1)) < 604800 \<and>
      fst (fires q (Suc n) (- 1)) =
        (if fst (fires q n (- 1)) = 604799 then 0 else fst (fires q n (- 1)) + 1))"
proof -
  have a: "beat0 (accessories probe reply p) = Some b \<longrightarrow> b = - 1"
    using accessories_beat0 by blast
  have f: "fires q m (- 1) =
     (if m = 0 then - 1 else (- 1 + int m) mod 604800,
      map (\<lambda>k. map (\<lambda>bridge. (bridge, (- 1 + 1 + int k) mod 604800)) (bridges q)) [0..<m])" for m
    by (rule fires_from) simp
  have b: "fst (fires q m (- 1)) = (if m = 0 then - 1 else (int m - 1) mod 604800)" for m
    by (simp add: f)
  have c: "snd (fires q n (- 1)) =
     map (\<lambda>k. map (\<lambda>bridge. (bridge, int k mod 604800)) (bridges q)) [0..<n]"
    by (simp add: f)
  have d: "0 < n \<longrightarrow>
      0 \<le> fst (fires q n (- 1)) \<and> fst (fires q n (- 1)) < 604800 \<and>
      fst (fires q (Suc n) (- 1)) =
        (if fst (fires q n (- 1)) = 604799 then 0 else fst (fires q n (- 1)) + 1)"
  proof
    assume n: "0 < n"
    then have x: "0 \<le> int n - 1" by simp
    have w: "(int n - 1 + 1) mod 604800 =
        (if (int n - 1) mod 604800 = 604799 then 0 else (int n - 1) mod 604800 + 1)"
      using x by (rule wrap_step)
    have bn: "fst (fires q n (- 1)) = (int n - 1) mod 604800"
      using n by (simp add: b)
    have bS: "fst (fires q (Suc n) (- 1)) = (int n - 1 + 1) mod 604800"
      by (simp add: b del: fires.simps)
    show "0 \<le> fst (fires q n (- 1)) \<and> fst (fires q n (- 1)) < 604800 \<and>
      fst (fires q (Suc n) (- 1)) =
        (if fst (fires q n (- 1)) = 604799 then 0 else fst (fires q n (- 1)) + 1)"
      unfolding bn bS w by simp
  qed
  from a b [of n] c d show ?thesis by blast
qed

theorem heartbeat_sequence_witness:
  "beat0 (accessories one_lamp portal_down static_platform) = Some (- 1) \<and>
   (0::nat) < 3 \<and>
   fst (fires (final (accessories one_lamp portal_down static_platform)) 3 (- 1)) = 2 \<and>
   snd (fires (final (accessories one_lamp portal_down static_platform)) 3 (- 1)) =
     [[(HueBridge (JStr ''10.0.0.5''), 0), (HueBridge (JStr ''10.0.0.6''), 0)],
      [(HueBridge (JStr ''10.0.0.5''), 1), (HueBridge (JStr ''10.0.0.6''), 1)],
      [(HueBridge (JStr ''10.0.0.5''), 2), (HueBridge (JStr ''10.0.0.6''), 2)]] \<and>
   fst (fires (final (accessories one_lamp portal_down static_platform)) 604800 (- 1)) = 604799 \<and>
   fst (fires (final (accessories one_lamp portal_down static_platform)) 604801 (- 1)) = 0"
proof -
  let ?q = "final (accessories one_lamp portal_down static_platform)"
  note t3 = heartbeat_sequence [of one_lamp portal_down static_platform "- 1" ?q 3]
  note tw = heartbeat_sequence [of one_lamp portal_down static_platform "- 1" ?q 604800]
  have u: "[0..<3] = [0, 1, 2::nat]"
    by code_simp
  have s: "Suc 604800 = 604801" by simp
  have a: "fst (fires ?q 3 (- 1)) = 2"
    using t3 by simp
  have b: "snd (fires ?q 3 (- 1)) =
     [[(HueBridge (JStr ''10.0.0.5''), 0), (HueBridge (JStr ''10.0.0.6''), 0)],
      [(HueBridge (JStr ''10.0.0.5''), 1), (HueBridge (JStr ''10.0.0.6''), 1)],
      [(HueBridge (JStr ''10.0.0.5''), 2), (HueBridge (JStr ''10.0.0.6''), 2)]]"
    using t3 unfolding u one_lamp_bridges by simp
  have c: "fst (fires ?q 604800 (- 1)) = 604799"
    using tw by simp
  have d: "fst (fires ?q 604801 (- 1)) = 0"
    using tw c unfolding s by simp
  from a b c d one_lamp_beat0 show ?thesis by simp
qed

end
